theory Spec2Isabelle
  imports Main
begin

section \<open>The channel object of \<^verbatim>\<open>aio_pika/channel.py\<close>\<close>

text \<open>
  The source is asynchronous Python. Each method of \<^verbatim>\<open>Channel\<close> is embedded as a function
  from the object's fields before the call to a \<^emph>\<open>run\<close>: the value returned or the
  exception raised, the fields after the call, and the interactions with the collaborators
  (connection, underlying channel, subscribers, broker) in the order they happen.
  What a collaborator answers at an \<^verbatim>\<open>await\<close> is not decided by this file's code, so it
  is an argument of the model (\<open>env\<close>). Calls are taken one at a time: the operation lock
  \<^verbatim>\<open>__operation_lock\<close> is always free when a call starts, and debug logging is left out.
\<close>

subsection \<open>Exceptions\<close>

datatype error =
    RuntimeError string
  | ChannelInvalidStateError string
  | AttributeError string
  | CancelledError
  | InvalidStateError
  | CollaboratorError string

subsection \<open>Collaborators\<close>

type_synonym object_id = nat
type_synonym transport = nat
type_synonym aiormq_channel = nat
type_synonym callback = nat
type_synonym Arguments = "(string \<times> string) list option"
type_synonym TimeoutType = "int option"

text \<open>
  \<^verbatim>\<open>ExchangeType\<close>: the source names the member \<^verbatim>\<open>DIRECT\<close> only and accepts a string
  in its place.
\<close>

datatype ExchangeType = DIRECT | TypeName string

text \<open>
  An \<^verbatim>\<open>asyncio.Future\<close> as \<^verbatim>\<open>__on_close\<close> reads it: \<^verbatim>\<open>exception()\<close> returns the
  exception of a finished future (\<^verbatim>\<open>None\<close> when it finished with a result), and raises on a
  cancelled or an unfinished one.
\<close>

datatype future = Pending | Finished "error option" | Cancelled

fun future_exception :: "future \<Rightarrow> error + error option" where
  "future_exception Pending = Inl InvalidStateError"
| "future_exception (Finished exc) = Inr exc"
| "future_exception Cancelled = Inl CancelledError"

record Connection =
  conn_id :: object_id
  conn_loop :: object_id

text \<open>\<^verbatim>\<open>UnderlayChannel\<close>: the source reads its field \<^verbatim>\<open>channel\<close> and calls \<^verbatim>\<open>close()\<close>.\<close>

record UnderlayChannel =
  uc_channel :: aiormq_channel

text \<open>
  Modelled from the spec: the constructor of \<^verbatim>\<open>Exchange\<close> (\<^verbatim>\<open>aio_pika/exchange.py\<close> is not
  among the sources). It builds a value object holding a reference back to the owning channel
  and the attributes it was given, and contacts nobody. \<open>ex_type = None\<close> stands for a call
  that passes no \<^verbatim>\<open>type\<close>, where the constructor's own default applies.
\<close>

record Exchange =
  ex_channel :: object_id
  ex_name :: string
  ex_type :: "ExchangeType option"
  ex_durable :: "bool option"
  ex_auto_delete :: bool
  ex_internal :: bool
  ex_passive :: bool
  ex_arguments :: Arguments

definition EXCHANGE_CLASS ::
  "object_id \<Rightarrow> string \<Rightarrow> ExchangeType option \<Rightarrow> bool option \<Rightarrow> bool \<Rightarrow> bool \<Rightarrow> bool
     \<Rightarrow> Arguments \<Rightarrow> Exchange" where
  "EXCHANGE_CLASS ch nm ty dur ad intern pas args =
     \<lparr>ex_channel = ch, ex_name = nm, ex_type = ty, ex_durable = dur, ex_auto_delete = ad,
      ex_internal = intern, ex_passive = pas, ex_arguments = args\<rparr>"

text \<open>
  Modelled from the spec: the constructor of \<^verbatim>\<open>Transaction\<close> (\<^verbatim>\<open>aio_pika/transaction.py\<close> is
  not among the sources): a value bound to the channel it was made from.
\<close>

record Transaction =
  tx_channel :: object_id

subsection \<open>The fields of a channel\<close>

text \<open>
  One field per attribute that \<^verbatim>\<open>__init__\<close>, \<^verbatim>\<open>_open\<close> and \<^verbatim>\<open>reopen\<close> touch; a leading
  underscore of the Python name is dropped. \<open>ready\<close> is whether the \<^verbatim>\<open>asyncio.Event\<close> is set.
  The attributes \<^verbatim>\<open>_channel\<close>, \<^verbatim>\<open>_transport\<close>, \<^verbatim>\<open>_transport_connection\<close> and
  \<^verbatim>\<open>default_exchange\<close> do not exist until they are assigned and \<^verbatim>\<open>reopen\<close> deletes two of
  them: \<open>None\<close> is the missing attribute. The two callback collections are the subscribed
  handlers in subscription order. \<open>self_id\<close> is the identity of the object, which is what
  \<^verbatim>\<open>channel=self\<close> hands to an exchange or a transaction.
\<close>

record Channel =
  self_id :: object_id
  loop :: object_id
  ready :: bool
  is_closed_by_user :: bool
  channel_number :: "int option"
  connection :: Connection
  close_callbacks :: "callback list"
  return_callbacks :: "callback list"
  publisher_confirms :: bool
  on_return_raises :: bool
  delivery_tag :: int
  default_exchange :: "Exchange option"
  attr_channel :: "UnderlayChannel option"
  attr_transport :: "transport option"
  attr_transport_connection :: "transport option"

subsection \<open>What the collaborators answer during one call\<close>

text \<open>
  \<^item> \<open>handle_closed\<close>: the value of \<^verbatim>\<open>self._channel.channel.is_closed\<close>;
  \<^item> \<open>connected_wait\<close>: \<^verbatim>\<open>await self._connection.connected.wait()\<close> returns (\<open>None\<close>) or raises;
  \<^item> \<open>connection_transport\<close>: the value of \<^verbatim>\<open>self._connection.transport\<close>;
  \<^item> \<open>create_channel\<close>: \<^verbatim>\<open>await UnderlayChannel.create_channel(...)\<close> returns a handle or raises;
  \<^item> \<open>underlay_close\<close>: \<^verbatim>\<open>await self._channel.close()\<close> returns (\<open>None\<close>) or raises;
  \<^item> \<open>close_notification\<close>: whether, while \<^verbatim>\<open>close\<close> awaits the underlying close, the underlying
    channel runs the close handler it was given at creation, and with which future;
  \<^item> \<open>callback_outcome\<close>: whether a subscribed handler returns (\<open>None\<close>) or raises;
  \<^item> \<open>dispatch_await\<close>: \<^verbatim>\<open>await self.close_callbacks(...)\<close> returns (\<open>None\<close>) or raises;
  \<^item> \<open>exchange_declare\<close>: the broker accepts the declaration (\<open>None\<close>) or the call raises.
\<close>

record env =
  handle_closed :: "aiormq_channel \<Rightarrow> bool"
  connected_wait :: "error option"
  connection_transport :: transport
  create_channel :: "error + UnderlayChannel"
  underlay_close :: "error option"
  close_notification :: "future option"
  callback_outcome :: "callback \<Rightarrow> error option"
  dispatch_await :: "error option"
  exchange_declare :: "error option"

datatype event =
    LogWarning string
  | ConnectedWait object_id
  | CreateChannel transport object_id bool bool "int option"
  | UnderlayClose aiormq_channel
  | CallbackCalled callback object_id "error option"
  | LogException callback error
  | ReadySet
  | ReadyClear
  | OnReturnCallbackAdd aiormq_channel object_id
  | ExchangeDeclare aiormq_channel Exchange TimeoutType

record 'a run =
  result :: "error + 'a"
  after :: Channel
  events :: "event list"

definition outcome :: "error option \<Rightarrow> error + unit" where
  "outcome r = (case r of None \<Rightarrow> Inr () | Some e \<Rightarrow> Inl e)"

subsection \<open>Construction\<close>

definition not_applicable_message :: string where
  "not_applicable_message =
     [CHR 0x22] @ ''on_return_raises'' @ [CHR 0x22] @ '' not applicable without ''
       @ [CHR 0x22] @ ''publisher_confirms'' @ [CHR 0x22]"

text \<open>\<^verbatim>\<open>Channel.__init__\<close>; \<open>oid\<close> is the identity of the object under construction.\<close>

definition init :: "object_id \<Rightarrow> Connection \<Rightarrow> int option \<Rightarrow> bool \<Rightarrow> bool \<Rightarrow> error + Channel" where
  "init oid conn number confirms raises =
     (if \<not> confirms \<and> raises then Inl (RuntimeError not_applicable_message)
      else Inr \<lparr>self_id = oid, loop = conn_loop conn, ready = False,
                is_closed_by_user = False, channel_number = number, connection = conn,
                close_callbacks = [], return_callbacks = [], publisher_confirms = confirms,
                on_return_raises = raises, delivery_tag = 0, default_exchange = None,
                attr_channel = None, attr_transport = None, attr_transport_connection = None\<rparr>)"

subsection \<open>The properties of the class\<close>

definition is_initialized :: "Channel \<Rightarrow> bool" where
  "is_initialized c = ready c"

definition is_closed :: "env \<Rightarrow> Channel \<Rightarrow> error + bool" where
  "is_closed w c =
     (if \<not> is_initialized c \<or> is_closed_by_user c then Inr True
      else case attr_channel c of
             None \<Rightarrow> Inl (AttributeError ''_channel'')
           | Some u \<Rightarrow> Inr (handle_closed w (uc_channel u)))"

text \<open>The property \<^verbatim>\<open>Channel.channel\<close>.\<close>

definition channel :: "env \<Rightarrow> Channel \<Rightarrow> error + aiormq_channel" where
  "channel w c =
     (if \<not> is_initialized c then Inl (ChannelInvalidStateError ''Channel was not opened'')
      else case is_closed w c of
             Inl e \<Rightarrow> Inl e
           | Inr True \<Rightarrow> Inl (ChannelInvalidStateError ''Channel has been closed'')
           | Inr False \<Rightarrow>
               (case attr_channel c of
                  None \<Rightarrow> Inl (AttributeError ''_channel'')
                | Some u \<Rightarrow> Inr (uc_channel u)))"

subsection \<open>Opening\<close>

text \<open>
  \<^verbatim>\<open>Channel._open\<close>. \<^verbatim>\<open>create_channel\<close> receives the transport, the close handler
  \<^verbatim>\<open>self.__on_close\<close> (named here by its owner) and the three fixed settings.
\<close>

definition priv_open :: "env \<Rightarrow> Channel \<Rightarrow> unit run" where
  "priv_open w c =
     (case connected_wait w of
        Some e \<Rightarrow>
          \<lparr>result = Inl e, after = c, events = [ConnectedWait (conn_id (connection c))]\<rparr>
      | None \<Rightarrow>
          (let t = connection_transport w;
               c1 = c\<lparr>attr_transport := Some t\<rparr>;
               evs = [ConnectedWait (conn_id (connection c)),
                      CreateChannel t (self_id c) (publisher_confirms c) (on_return_raises c)
                        (channel_number c)]
           in case create_channel w of
                Inl e \<Rightarrow> \<lparr>result = Inl e, after = c1, events = evs\<rparr>
              | Inr u \<Rightarrow>
                  \<lparr>result = Inr (),
                   after = c1\<lparr>attr_channel := Some u, delivery_tag := 0,
                             default_exchange :=
                               Some (EXCHANGE_CLASS (self_id c) [] (Some DIRECT) (Some False)
                                       False False False None)\<rparr>,
                   events = evs\<rparr>))"

text \<open>\<^verbatim>\<open>Channel._on_initialized\<close>: the return bridge is added through the guarded accessor.\<close>

definition priv_on_initialized :: "env \<Rightarrow> Channel \<Rightarrow> unit run" where
  "priv_on_initialized w c =
     (case channel w c of
        Inl e \<Rightarrow> \<lparr>result = Inl e, after = c, events = []\<rparr>
      | Inr h \<Rightarrow> \<lparr>result = Inr (), after = c, events = [OnReturnCallbackAdd h (self_id c)]\<rparr>)"

text \<open>\<^verbatim>\<open>Channel.initialize\<close>; its \<^verbatim>\<open>timeout\<close> argument is never read by the body.\<close>

definition initialize :: "env \<Rightarrow> Channel \<Rightarrow> unit run" where
  "initialize w c =
     (if is_initialized c then
        \<lparr>result = Inl (RuntimeError ''Already initialized''), after = c, events = []\<rparr>
      else if is_closed_by_user c then
        \<lparr>result = Inl (RuntimeError ''Can't initialize closed channel''), after = c,
         events = []\<rparr>
      else
        (let opened = priv_open w c
         in case result opened of
              Inl e \<Rightarrow> opened
            | Inr _ \<Rightarrow>
                (let c1 = (after opened)\<lparr>ready := True\<rparr>;
                     bridged = priv_on_initialized w c1
                 in \<lparr>result = result bridged, after = after bridged,
                     events = events opened @ [ReadySet] @ events bridged\<rparr>)))"

text \<open>\<^verbatim>\<open>Channel.reopen\<close>.\<close>

definition reopen :: "env \<Rightarrow> Channel \<Rightarrow> unit run" where
  "reopen w c =
     (let c1 = c\<lparr>attr_channel := None\<rparr>;
          c2 = c1\<lparr>attr_transport_connection := None\<rparr>;
          c3 = c2\<lparr>is_closed_by_user := False\<rparr>;
          opened = priv_open w c3
      in case result opened of
           Inl e \<Rightarrow> opened
         | Inr _ \<Rightarrow>
             \<lparr>result = Inr (), after = (after opened)\<lparr>ready := True\<rparr>,
              events = events opened @ [ReadySet]\<rparr>)"

subsection \<open>Closing\<close>

text \<open>
  Modelled from the spec: calling a \<^verbatim>\<open>CallbackCollection\<close> (\<^verbatim>\<open>aio_pika/tools.py\<close> is not
  among the sources). Every handler is called, in order, with the owner and the one shared
  argument; a handler that fails is logged and the remaining ones still run.
\<close>

fun callbacks_call :: "env \<Rightarrow> callback list \<Rightarrow> object_id \<Rightarrow> error option \<Rightarrow> event list" where
  "callbacks_call w [] sender arg = []"
| "callbacks_call w (cb # cbs) sender arg =
     (case callback_outcome w cb of
        None \<Rightarrow> [CallbackCalled cb sender arg]
      | Some e \<Rightarrow> [CallbackCalled cb sender arg, LogException cb e])
     @ callbacks_call w cbs sender arg"

text \<open>
  \<^verbatim>\<open>Channel.__on_close\<close>: \<^verbatim>\<open>closing.exception()\<close> is evaluated inside the \<^verbatim>\<open>try\<close>, so
  the \<^verbatim>\<open>finally\<close> clears the latch on every path.
\<close>

definition priv_on_close :: "env \<Rightarrow> future \<Rightarrow> Channel \<Rightarrow> unit run" where
  "priv_on_close w closing c =
     (case future_exception closing of
        Inl e \<Rightarrow> \<lparr>result = Inl e, after = c\<lparr>ready := False\<rparr>, events = [ReadyClear]\<rparr>
      | Inr exc \<Rightarrow>
          \<lparr>result = outcome (dispatch_await w),
           after = c\<lparr>ready := False\<rparr>,
           events = callbacks_call w (close_callbacks c) (self_id c) exc @ [ReadyClear]\<rparr>)"

text \<open>
  \<^verbatim>\<open>Channel.close\<close>; its \<^verbatim>\<open>exc\<close> argument is never read by the body. The decorator
  \<^verbatim>\<open>@task\<close> runs the body as a task whose awaiting gives the body's outcome. While the
  body awaits the underlying close, the underlying channel may run the close handler
  (\<open>close_notification\<close>); what that handler itself returns goes to the underlying channel,
  not to the caller of \<^verbatim>\<open>close\<close>.
\<close>

definition close :: "env \<Rightarrow> Channel \<Rightarrow> unit run" where
  "close w c =
     (if \<not> is_initialized c then
        \<lparr>result = Inr (), after = c, events = [LogWarning ''Channel not opened'']\<rparr>
      else case attr_channel c of
             None \<Rightarrow>
               \<lparr>result = Inl (AttributeError ''_channel''),
                after = c\<lparr>is_closed_by_user := True\<rparr>, events = []\<rparr>
           | Some u \<Rightarrow>
               (let notified =
                      (case close_notification w of
                         None \<Rightarrow> \<lparr>result = Inr (), after = c, events = []\<rparr>
                       | Some closing \<Rightarrow> priv_on_close w closing c)
                in \<lparr>result = outcome (underlay_close w),
                    after = (after notified)\<lparr>is_closed_by_user := True\<rparr>,
                    events = UnderlayClose (uc_channel u) # events notified\<rparr>))"

text \<open>Calling \<^verbatim>\<open>close\<close> once per element of a list of answers, first element first.\<close>

fun closes :: "env list \<Rightarrow> Channel \<Rightarrow> Channel" where
  "closes [] c = c"
| "closes (w # ws) c = closes ws (after (close w c))"

subsection \<open>Exchanges and transactions\<close>

text \<open>
  Modelled from the spec: \<^verbatim>\<open>Exchange.declare\<close> (\<^verbatim>\<open>aio_pika/exchange.py\<close> is not among the
  sources). The declaration is issued on the live handle, which is obtained through the
  guarded accessor; the broker accepts it or the call fails with the broker's error.
\<close>

definition Exchange_declare :: "env \<Rightarrow> Channel \<Rightarrow> Exchange \<Rightarrow> TimeoutType \<Rightarrow> unit run" where
  "Exchange_declare w c x timeout =
     (case channel w c of
        Inl e \<Rightarrow> \<lparr>result = Inl e, after = c, events = []\<rparr>
      | Inr h \<Rightarrow>
          \<lparr>result = outcome (exchange_declare w), after = c,
           events = [ExchangeDeclare h x timeout]\<rparr>)"

text \<open>\<^verbatim>\<open>Channel.declare_exchange\<close>; \<open>durable\<close> may be \<^verbatim>\<open>None\<close>, which the source tests for.\<close>

definition declare_exchange ::
  "env \<Rightarrow> Channel \<Rightarrow> string \<Rightarrow> ExchangeType \<Rightarrow> bool option \<Rightarrow> bool \<Rightarrow> bool \<Rightarrow> bool
     \<Rightarrow> Arguments \<Rightarrow> TimeoutType \<Rightarrow> Exchange run" where
  "declare_exchange w c nm ty durable auto_delete internal passive arguments timeout =
     (let durable1 = (if auto_delete \<and> durable = None then Some False else durable);
          exchange = EXCHANGE_CLASS (self_id c) nm (Some ty) durable1 auto_delete internal
                       passive arguments;
          declared = Exchange_declare w c exchange timeout
      in case result declared of
           Inl e \<Rightarrow> \<lparr>result = Inl e, after = after declared, events = events declared\<rparr>
         | Inr _ \<Rightarrow>
             \<lparr>result = Inr exchange, after = after declared, events = events declared\<rparr>)"

text \<open>
  \<^verbatim>\<open>Channel.get_exchange\<close>. With \<^verbatim>\<open>ensure\<close> it calls \<^verbatim>\<open>declare_exchange(name=name,
  passive=True)\<close>, every other argument at its default.
\<close>

definition get_exchange :: "env \<Rightarrow> Channel \<Rightarrow> string \<Rightarrow> bool \<Rightarrow> Exchange run" where
  "get_exchange w c nm ensure =
     (if ensure then declare_exchange w c nm DIRECT (Some False) False False True None None
      else \<lparr>result = Inr (EXCHANGE_CLASS (self_id c) nm None (Some False) False False True
                            None),
            after = c, events = []\<rparr>)"

text \<open>\<^verbatim>\<open>Channel.transaction\<close>.\<close>

definition transaction :: "Channel \<Rightarrow> Transaction run" where
  "transaction c =
     (if publisher_confirms c then
        \<lparr>result = Inl (RuntimeError
           ''Cannot create transaction when publisher confirms are enabled''),
         after = c, events = []\<rparr>
      else \<lparr>result = Inr \<lparr>tx_channel = self_id c\<rparr>, after = c, events = []\<rparr>)"

subsection \<open>Observations on a run\<close>

fun is_call :: "event \<Rightarrow> bool" where
  "is_call (CallbackCalled cb sender arg) = True"
| "is_call other = False"

subsection \<open>Concrete channels and answers\<close>

text \<open>
  A connection, a channel as \<^verbatim>\<open>Channel(connection)\<close> leaves it (publisher confirms on by
  default), the same with confirms switched off, and two subscribed close handlers.
\<close>

definition connection0 :: Connection where
  "connection0 = \<lparr>conn_id = 1, conn_loop = 2\<rparr>"

definition new_channel :: Channel where
  "new_channel =
     \<lparr>self_id = 7, loop = 2, ready = False, is_closed_by_user = False, channel_number = None,
      connection = connection0, close_callbacks = [], return_callbacks = [],
      publisher_confirms = True, on_return_raises = False, delivery_tag = 0,
      default_exchange = None, attr_channel = None, attr_transport = None,
      attr_transport_connection = None\<rparr>"

definition plain_channel :: Channel where
  "plain_channel = new_channel\<lparr>publisher_confirms := False\<rparr>"

definition subscribed_channel :: Channel where
  "subscribed_channel = new_channel\<lparr>close_callbacks := [11, 12]\<rparr>"

text \<open>
  Collaborators that all answer normally: the connection is up, the broker hands out handle
  \<open>4\<close>, the underlying close returns and runs the close handler for a clean close.
\<close>

definition env_ok :: env where
  "env_ok =
     \<lparr>handle_closed = (\<lambda>h. False), connected_wait = None, connection_transport = 3,
      create_channel = Inr \<lparr>uc_channel = 4\<rparr>, underlay_close = None,
      close_notification = Some (Finished None), callback_outcome = (\<lambda>cb. None),
      dispatch_await = None, exchange_declare = None\<rparr>"

text \<open>The same, with a new handle \<open>5\<close> on offer.\<close>

definition env_again :: env where
  "env_again = env_ok\<lparr>create_channel := Inr \<lparr>uc_channel = 5\<rparr>\<rparr>"

text \<open>The underlying close fails and no close notification arrives.\<close>

definition env_close_fails :: env where
  "env_close_fails =
     env_ok\<lparr>underlay_close := Some (CollaboratorError ''connection lost''),
            close_notification := None\<rparr>"

text \<open>The broker rejects a declaration; the first close handler raises.\<close>

definition env_rejects :: env where
  "env_rejects =
     env_ok\<lparr>exchange_declare := Some (CollaboratorError ''NOT_FOUND''),
            callback_outcome := (\<lambda>cb. if cb = 11 then Some (RuntimeError ''handler'') else None)\<rparr>"

definition opened_channel :: Channel where
  "opened_channel = after (initialize env_ok new_channel)"

definition peer_closed_channel :: Channel where
  "peer_closed_channel =
     after (priv_on_close env_ok (Finished (Some (CollaboratorError ''closed by peer'')))
              opened_channel)"

definition user_closed_channel :: Channel where
  "user_closed_channel = after (close env_ok opened_channel)"

text \<open>The underlying close returns, and the close handler is not run during the call.\<close>

definition env_close_quiet :: env where
  "env_close_quiet = env_ok\<lparr>close_notification := None\<rparr>"

text \<open>
  The opened channel after a \<^verbatim>\<open>close()\<close> whose underlying close failed, and the peer-closed
  channel after a \<^verbatim>\<open>close()\<close>.
\<close>

definition half_closed_channel :: Channel where
  "half_closed_channel = after (close env_close_fails opened_channel)"

definition closed_again_channel :: Channel where
  "closed_again_channel = after (close env_ok peer_closed_channel)"

section \<open>Properties\<close>

subsection \<open>Unfolding and the concrete channels\<close>

lemmas model_defs =
  initialize_def priv_open_def priv_on_initialized_def channel_def is_closed_def
  is_initialized_def close_def priv_on_close_def reopen_def outcome_def EXCHANGE_CLASS_def

lemmas example_defs =
  new_channel_def plain_channel_def subscribed_channel_def connection0_def env_ok_def
  env_again_def env_close_fails_def env_rejects_def

lemma initialize_new_channel: "result (initialize env_ok new_channel) = Inr ()"
  by (simp add: model_defs example_defs Let_def)

lemma opened_channel_fields:
  "opened_channel =
     new_channel\<lparr>ready := True, attr_transport := Some 3,
                 attr_channel := Some \<lparr>uc_channel = 4\<rparr>,
                 default_exchange :=
                   Some (EXCHANGE_CLASS 7 [] (Some DIRECT) (Some False) False False False None)\<rparr>"
  by (simp add: opened_channel_def model_defs example_defs Let_def)

lemma peer_closed_channel_fields: "peer_closed_channel = opened_channel\<lparr>ready := False\<rparr>"
  by (simp add: peer_closed_channel_def priv_on_close_def)

lemma user_closed_channel_fields:
  "user_closed_channel = opened_channel\<lparr>ready := False, is_closed_by_user := True\<rparr>"
  by (simp add: user_closed_channel_def opened_channel_fields model_defs example_defs)

subsection \<open>Construction\<close>

text \<open>
  C4. Constructing a channel with \<^verbatim>\<open>on_return_raises\<close> true and \<^verbatim>\<open>publisher_confirms\<close>
  false fails with the configuration error (a \<^verbatim>\<open>RuntimeError\<close>), and with those flags
  only: every other combination yields a channel carrying the flags it was given, not yet
  ready and not closed by the user. The failing construction yields the error alone, no
  channel fields; the constructor has no collaborator to talk to (it takes no \<open>env\<close>), so
  nothing precedes the check.
\<close>

theorem init_configuration_error:
  "(init oid conn number confirms raises = Inl (RuntimeError not_applicable_message)
      \<longleftrightarrow> raises \<and> \<not> confirms)
   \<and> ((\<exists>c. init oid conn number confirms raises = Inr c
            \<and> publisher_confirms c = confirms \<and> on_return_raises c = raises
            \<and> channel_number c = number \<and> self_id c = oid \<and> connection c = conn
            \<and> \<not> ready c \<and> \<not> is_closed_by_user c \<and> attr_channel c = None)
      \<longleftrightarrow> \<not> (raises \<and> \<not> confirms))"
  by (auto simp: init_def)

theorem init_configuration_error_witness:
  "init 7 connection0 None False True = Inl (RuntimeError not_applicable_message)
   \<and> (\<exists>c. init 7 connection0 None True True = Inr c)
   \<and> init 7 connection0 None True False = Inr new_channel"
  using init_configuration_error [of 7 connection0 None False True]
    init_configuration_error [of 7 connection0 None True True]
  by (auto simp: init_def new_channel_def connection0_def)

subsection \<open>The closed predicate\<close>

text \<open>
  C10. A channel that was constructed and never initialized reports \<^verbatim>\<open>is_closed\<close> true,
  and so does every channel whose closed-by-user flag is set, whatever the underlying handle
  says about itself (\<open>w\<close> is arbitrary).
\<close>

theorem is_closed_unopened_or_user_closed:
  "(init oid conn number confirms raises = Inr c \<longrightarrow> is_closed w c = Inr True)
   \<and> (is_closed_by_user c' \<longrightarrow> is_closed w c' = Inr True)"
  by (auto simp: init_def is_closed_def is_initialized_def split: if_splits)

theorem is_closed_unopened_or_user_closed_witness:
  "init 7 connection0 None True False = Inr new_channel
   \<and> is_closed (env_ok\<lparr>handle_closed := (\<lambda>h. False)\<rparr>) new_channel = Inr True
   \<and> is_closed_by_user (after (close env_close_fails opened_channel))
   \<and> is_closed env_ok (after (close env_close_fails opened_channel)) = Inr True"
proof -
  have a: "init 7 connection0 None True False = Inr new_channel"
    by (simp add: init_def new_channel_def connection0_def)
  have b: "is_closed_by_user (after (close env_close_fails opened_channel))"
    by (simp add: opened_channel_fields model_defs example_defs)
  from a b
    is_closed_unopened_or_user_closed
      [of 7 connection0 None True False new_channel "env_ok\<lparr>handle_closed := (\<lambda>h. False)\<rparr>"
          "after (close env_close_fails opened_channel)"]
    is_closed_unopened_or_user_closed
      [of 7 connection0 None True False new_channel env_ok
          "after (close env_close_fails opened_channel)"]
  show ?thesis by simp
qed

subsection \<open>Transactions\<close>

text \<open>
  C7. \<^verbatim>\<open>transaction()\<close> fails exactly when \<^verbatim>\<open>publisher_confirms\<close> is true at the call, with
  the configuration error; when it is false the call returns a transaction bound to this
  channel. In both cases the channel's fields are as before and no collaborator is contacted.
\<close>

theorem transaction_configuration_error:
  "((\<exists>e. result (transaction c) = Inl e) \<longleftrightarrow> publisher_confirms c)
   \<and> (publisher_confirms c \<longrightarrow>
        result (transaction c) =
          Inl (RuntimeError ''Cannot create transaction when publisher confirms are enabled''))
   \<and> (\<not> publisher_confirms c \<longrightarrow> result (transaction c) = Inr \<lparr>tx_channel = self_id c\<rparr>)
   \<and> after (transaction c) = c \<and> events (transaction c) = []"
  by (simp add: transaction_def)

theorem transaction_configuration_error_witness:
  "result (transaction new_channel) =
     Inl (RuntimeError ''Cannot create transaction when publisher confirms are enabled'')
   \<and> result (transaction plain_channel) = Inr \<lparr>tx_channel = 7\<rparr>
   \<and> after (transaction plain_channel) = plain_channel"
  using transaction_configuration_error [of new_channel]
    transaction_configuration_error [of plain_channel]
  by (simp add: new_channel_def plain_channel_def)

subsection \<open>Exchanges\<close>

lemma declare_exchange_live:
  assumes "channel w c = Inr h"
  shows "declare_exchange w c nm ty durable ad intern pas args timeout =
           \<lparr>result = (case exchange_declare w of
                        None \<Rightarrow> Inr (EXCHANGE_CLASS (self_id c) nm (Some ty)
                                       (if ad \<and> durable = None then Some False else durable)
                                       ad intern pas args)
                      | Some e \<Rightarrow> Inl e),
            after = c,
            events = [ExchangeDeclare h
                        (EXCHANGE_CLASS (self_id c) nm (Some ty)
                           (if ad \<and> durable = None then Some False else durable)
                           ad intern pas args) timeout]\<rparr>"
  using assms
  by (simp add: declare_exchange_def Exchange_declare_def outcome_def Let_def split: option.splits)

text \<open>
  C6. For every channel, every answer of the collaborators and every name,
  \<^verbatim>\<open>get_exchange(name, ensure=True)\<close> is the same run as \<^verbatim>\<open>declare_exchange(name,
  passive=True)\<close>: the same outcome, the same fields afterwards, the same interactions. In
  particular, on a live channel both fail with the broker's error when the broker rejects
  the passive declaration, and both return the same exchange value when it accepts.
  \<^verbatim>\<open>get_exchange(name, ensure=False)\<close> returns a local exchange bound to this channel,
  leaves the fields as they were and contacts nobody.
\<close>

theorem get_exchange_ensure:
  "get_exchange w c nm True =
     declare_exchange w c nm DIRECT (Some False) False False True None None
   \<and> (channel w c = Inr h \<and> exchange_declare w = Some e \<longrightarrow>
        result (get_exchange w c nm True) = Inl e
        \<and> result (declare_exchange w c nm DIRECT (Some False) False False True None None) = Inl e)
   \<and> (channel w c = Inr h \<and> exchange_declare w = None \<longrightarrow>
        result (get_exchange w c nm True) =
          Inr (EXCHANGE_CLASS (self_id c) nm (Some DIRECT) (Some False) False False True None)
        \<and> result (declare_exchange w c nm DIRECT (Some False) False False True None None) =
          Inr (EXCHANGE_CLASS (self_id c) nm (Some DIRECT) (Some False) False False True None))
   \<and> get_exchange w c nm False =
       \<lparr>result = Inr (EXCHANGE_CLASS (self_id c) nm None (Some False) False False True None),
        after = c, events = []\<rparr>"
proof -
  have same: "get_exchange w c nm True =
      declare_exchange w c nm DIRECT (Some False) False False True None None"
    by (simp add: get_exchange_def)
  have local: "get_exchange w c nm False =
       \<lparr>result = Inr (EXCHANGE_CLASS (self_id c) nm None (Some False) False False True None),
        after = c, events = []\<rparr>"
    by (simp add: get_exchange_def)
  have rejected: "result (declare_exchange w c nm DIRECT (Some False) False False True None None)
      = Inl e" if "channel w c = Inr h" "exchange_declare w = Some e"
    using that by (simp add: declare_exchange_live)
  have accepted: "result (declare_exchange w c nm DIRECT (Some False) False False True None None)
      = Inr (EXCHANGE_CLASS (self_id c) nm (Some DIRECT) (Some False) False False True None)"
    if "channel w c = Inr h" "exchange_declare w = None"
    using that by (simp add: declare_exchange_live)
  from same local rejected accepted show ?thesis by simp
qed

theorem get_exchange_ensure_witness:
  "channel env_rejects opened_channel = Inr 4
   \<and> result (get_exchange env_rejects opened_channel ''logs'' True) =
       Inl (CollaboratorError ''NOT_FOUND'')
   \<and> channel env_ok opened_channel = Inr 4
   \<and> result (get_exchange env_ok opened_channel ''logs'' True) =
       Inr (EXCHANGE_CLASS 7 ''logs'' (Some DIRECT) (Some False) False False True None)
   \<and> events (get_exchange env_ok opened_channel ''logs'' True) =
       [ExchangeDeclare 4
          (EXCHANGE_CLASS 7 ''logs'' (Some DIRECT) (Some False) False False True None) None]
   \<and> events (get_exchange env_rejects opened_channel ''logs'' False) = []"
proof -
  have a: "channel env_rejects opened_channel = Inr 4"
    by (simp add: opened_channel_fields model_defs example_defs)
  have b: "channel env_ok opened_channel = Inr 4"
    by (simp add: opened_channel_fields model_defs example_defs)
  have c: "exchange_declare env_rejects = Some (CollaboratorError ''NOT_FOUND'')"
    by (simp add: example_defs)
  have d: "exchange_declare env_ok = None"
    by (simp add: example_defs)
  have e: "self_id opened_channel = 7"
    by (simp add: opened_channel_fields example_defs)
  have f: "events (declare_exchange env_ok opened_channel ''logs'' DIRECT (Some False) False
                     False True None None) =
       [ExchangeDeclare 4
          (EXCHANGE_CLASS 7 ''logs'' (Some DIRECT) (Some False) False False True None) None]"
    using b e by (simp add: declare_exchange_live)
  from a b c d e f
    get_exchange_ensure [of env_rejects opened_channel "''logs''" 4 "CollaboratorError ''NOT_FOUND''"]
    get_exchange_ensure [of env_ok opened_channel "''logs''" 4 "CollaboratorError ''NOT_FOUND''"]
  show ?thesis by simp
qed

subsection \<open>Reopening\<close>

lemma priv_open_ok:
  assumes "result (priv_open w c) = Inr ()"
  shows "\<exists>u. create_channel w = Inr u \<and> connected_wait w = None
     \<and> after (priv_open w c) =
         c\<lparr>attr_transport := Some (connection_transport w), attr_channel := Some u,
           delivery_tag := 0,
           default_exchange :=
             Some (EXCHANGE_CLASS (self_id c) [] (Some DIRECT) (Some False) False False False
                     None)\<rparr>"
  using assms
  by (auto simp: priv_open_def Let_def split: option.splits sum.splits)

text \<open>
  C9. A reopen that succeeds stores the handle that the new \<^verbatim>\<open>create_channel\<close> call
  returned in place of the old underlying channel reference, installs a fresh default
  exchange bound to this channel, clears the closed-by-user flag and sets the ready latch;
  the close and return subscriptions, \<^verbatim>\<open>publisher_confirms\<close>, \<^verbatim>\<open>on_return_raises\<close> and
  the channel number are what they were before the call.
\<close>

theorem reopen_replaces_and_preserves:
  assumes "result (reopen w c) = Inr ()"
  shows "\<exists>u. create_channel w = Inr u
     \<and> attr_channel (after (reopen w c)) = Some u
     \<and> default_exchange (after (reopen w c)) =
         Some (EXCHANGE_CLASS (self_id c) [] (Some DIRECT) (Some False) False False False None)
     \<and> \<not> is_closed_by_user (after (reopen w c))
     \<and> ready (after (reopen w c))
     \<and> close_callbacks (after (reopen w c)) = close_callbacks c
     \<and> return_callbacks (after (reopen w c)) = return_callbacks c
     \<and> publisher_confirms (after (reopen w c)) = publisher_confirms c
     \<and> on_return_raises (after (reopen w c)) = on_return_raises c
     \<and> channel_number (after (reopen w c)) = channel_number c"
proof -
  let ?c3 = "c\<lparr>attr_channel := None, attr_transport_connection := None,
               is_closed_by_user := False\<rparr>"
  from assms have opened: "result (priv_open w ?c3) = Inr ()"
    by (auto simp: reopen_def Let_def split: sum.splits)
  from priv_open_ok [OF opened] obtain u where u: "create_channel w = Inr u"
    and fields: "after (priv_open w ?c3) =
         ?c3\<lparr>attr_transport := Some (connection_transport w), attr_channel := Some u,
             delivery_tag := 0,
             default_exchange :=
               Some (EXCHANGE_CLASS (self_id ?c3) [] (Some DIRECT) (Some False) False False
                       False None)\<rparr>"
    by blast
  from opened have "after (reopen w c) = (after (priv_open w ?c3))\<lparr>ready := True\<rparr>"
    by (simp add: reopen_def Let_def)
  with u fields show ?thesis by simp
qed

theorem reopen_replaces_and_preserves_witness:
  "result (reopen env_again user_closed_channel) = Inr ()
   \<and> attr_channel user_closed_channel = Some \<lparr>uc_channel = 4\<rparr>
   \<and> is_closed_by_user user_closed_channel
   \<and> attr_channel (after (reopen env_again user_closed_channel)) = Some \<lparr>uc_channel = 5\<rparr>
   \<and> \<not> is_closed_by_user (after (reopen env_again user_closed_channel))
   \<and> ready (after (reopen env_again user_closed_channel))"
proof -
  have a: "result (reopen env_again user_closed_channel) = Inr ()"
    by (simp add: user_closed_channel_fields opened_channel_fields model_defs example_defs Let_def)
  have b: "create_channel env_again = Inr \<lparr>uc_channel = 5\<rparr>"
    by (simp add: example_defs)
  have c: "attr_channel user_closed_channel = Some \<lparr>uc_channel = 4\<rparr>"
    "is_closed_by_user user_closed_channel"
    by (simp_all add: user_closed_channel_fields opened_channel_fields example_defs)
  from reopen_replaces_and_preserves [OF a] a b c show ?thesis by auto
qed

subsection \<open>The close handler\<close>

lemma calls_of_callbacks_call:
  "filter is_call (callbacks_call w cbs sender arg) =
     map (\<lambda>cb. CallbackCalled cb sender arg) cbs"
  by (induction cbs) (auto split: option.splits)

lemma no_clear_in_callbacks_call: "ReadyClear \<notin> set (callbacks_call w cbs sender arg)"
  by (induction cbs) (auto split: option.splits)

text \<open>
  C8. For every channel and every close event (a finished closing future, carrying a reason
  or none for a clean close), the interactions of the close handler are the dispatch to the
  close subscribers followed by the clearing of the latch, and nothing else: every
  subscribed handler is called, in subscription order, with the owner and the reason; the
  latch is not cleared anywhere within the dispatch; it is cleared right after it. This holds
  for every answer of the collaborators, so also when a handler raises and when the awaited
  dispatch itself raises.
\<close>

theorem on_close_dispatches_then_clears:
  "events (priv_on_close w (Finished reason) c) =
     callbacks_call w (close_callbacks c) (self_id c) reason @ [ReadyClear]
   \<and> filter is_call (callbacks_call w (close_callbacks c) (self_id c) reason) =
       map (\<lambda>cb. CallbackCalled cb (self_id c) reason) (close_callbacks c)
   \<and> ReadyClear \<notin> set (callbacks_call w (close_callbacks c) (self_id c) reason)
   \<and> \<not> ready (after (priv_on_close w (Finished reason) c))"
  by (simp add: priv_on_close_def calls_of_callbacks_call no_clear_in_callbacks_call)

theorem on_close_dispatches_then_clears_witness:
  "events (priv_on_close env_rejects (Finished None) subscribed_channel) =
      [CallbackCalled 11 7 None, LogException 11 (RuntimeError ''handler''),
       CallbackCalled 12 7 None, ReadyClear]
   \<and> \<not> ready (after (priv_on_close env_rejects (Finished None) subscribed_channel))"
  using on_close_dispatches_then_clears [of env_rejects None subscribed_channel]
  by (simp add: example_defs)

subsection \<open>The guarded accessor\<close>

text \<open>
  C5, as stated, fails. A channel that was initialized and then closed by the peer is
  closed (\<^verbatim>\<open>is_closed\<close> is true) and was initialized, yet the accessor raises with the
  reason of a channel that was never opened, not with the closed reason: the close handler
  has cleared the latch, and the accessor tests the latch first.
\<close>

theorem channel_accessor_counterexample:
  "result (initialize env_ok new_channel) = Inr ()
   \<and> is_closed env_ok peer_closed_channel = Inr True
   \<and> channel env_ok peer_closed_channel =
       Inl (ChannelInvalidStateError ''Channel was not opened'')
   \<and> channel env_ok peer_closed_channel \<noteq>
       Inl (ChannelInvalidStateError ''Channel has been closed'')"
  by (simp add: initialize_new_channel peer_closed_channel_fields channel_def is_closed_def
      is_initialized_def)

text \<open>
  C5, amended. The accessor fails with \<^verbatim>\<open>ChannelInvalidStateError("Channel was not
  opened")\<close> whenever the ready latch is not set, which is the case of a channel never
  initialized and equally of one whose latch a close has cleared; it fails with the distinct
  reason \<^verbatim>\<open>"Channel has been closed"\<close> whenever the latch is set and \<^verbatim>\<open>is_closed\<close> is
  true; it returns the handle of the underlying channel exactly when the channel is
  initialized and not closed.
\<close>

theorem channel_accessor:
  "(\<not> is_initialized c \<longrightarrow>
      channel w c = Inl (ChannelInvalidStateError ''Channel was not opened''))
   \<and> (is_initialized c \<and> is_closed w c = Inr True \<longrightarrow>
        channel w c = Inl (ChannelInvalidStateError ''Channel has been closed''))
   \<and> (channel w c = Inr h \<longleftrightarrow>
        is_initialized c \<and> is_closed w c = Inr False
        \<and> (\<exists>u. attr_channel c = Some u \<and> uc_channel u = h))"
  by (auto simp: channel_def is_closed_def split: if_splits option.splits sum.splits bool.splits)

theorem channel_accessor_witness:
  "\<not> is_initialized new_channel
   \<and> channel env_ok new_channel = Inl (ChannelInvalidStateError ''Channel was not opened'')
   \<and> is_initialized (after (close env_close_fails opened_channel))
   \<and> is_closed env_ok (after (close env_close_fails opened_channel)) = Inr True
   \<and> channel env_ok (after (close env_close_fails opened_channel)) =
       Inl (ChannelInvalidStateError ''Channel has been closed'')
   \<and> is_initialized opened_channel \<and> is_closed env_ok opened_channel = Inr False
   \<and> channel env_ok opened_channel = Inr 4"
proof -
  have a: "\<not> is_initialized new_channel"
    by (simp add: is_initialized_def new_channel_def)
  have b: "is_initialized (after (close env_close_fails opened_channel))"
    "is_closed env_ok (after (close env_close_fails opened_channel)) = Inr True"
    by (simp_all add: opened_channel_fields model_defs example_defs)
  have c: "is_initialized opened_channel" "is_closed env_ok opened_channel = Inr False"
    "attr_channel opened_channel = Some \<lparr>uc_channel = 4\<rparr>"
    by (simp_all add: opened_channel_fields model_defs example_defs)
  from a b c
    channel_accessor [of new_channel env_ok 4]
    channel_accessor [of "after (close env_close_fails opened_channel)" env_ok 4]
    channel_accessor [of opened_channel env_ok 4]
  show ?thesis by auto
qed

subsection \<open>What one close does\<close>

lemma close_not_ready:
  assumes "\<not> ready c"
  shows "close w c = \<lparr>result = Inr (), after = c, events = [LogWarning ''Channel not opened'']\<rparr>"
  using assms by (simp add: close_def is_initialized_def)

lemma close_sets_flag:
  assumes "is_initialized c"
  shows "is_closed_by_user (after (close w c))"
  using assms by (simp add: close_def Let_def split: option.splits)

lemma close_with_handle:
  assumes "is_initialized c" and "attr_channel c \<noteq> None"
  shows "result (close w c) = outcome (underlay_close w)"
  using assms by (auto simp: close_def Let_def split: option.splits)

lemma close_flagged:
  assumes "is_closed_by_user c"
  shows "is_closed_by_user (after (close w c))"
    and "(after (close w c))\<lparr>ready := r\<rparr> = c\<lparr>ready := r\<rparr>"
  using assms
  by (auto simp: close_def priv_on_close_def Let_def split: option.splits sum.splits)

lemma closes_flagged:
  assumes "is_closed_by_user c"
  shows "is_closed_by_user (closes ws c) \<and> (closes ws c)\<lparr>ready := r\<rparr> = c\<lparr>ready := r\<rparr>"
  using assms
proof (induction ws arbitrary: c)
  case Nil
  then show ?case by simp
next
  case (Cons w ws)
  from Cons.prems have step: "is_closed_by_user (after (close w c))"
    "(after (close w c))\<lparr>ready := r\<rparr> = c\<lparr>ready := r\<rparr>"
    by (rule close_flagged)+
  from Cons.IH [OF step(1)] step(2) show ?case by simp
qed

lemma closes_not_ready:
  assumes "\<not> ready c"
  shows "closes ws c = c"
  using assms by (induction ws arbitrary: c) (simp_all add: close_not_ready)

lemma close_quiet_keeps_latch:
  assumes "close_notification w = None"
  shows "ready (after (close w c)) = ready c"
  using assms by (simp add: close_def is_initialized_def Let_def split: option.splits)

lemma on_close_clears_latch: "\<not> ready (after (priv_on_close w closing c))"
  by (simp add: priv_on_close_def split: sum.splits)

lemma close_notified_clears_latch:
  assumes "close_notification w = Some closing" and "attr_channel c \<noteq> None"
  shows "\<not> ready (after (close w c))"
  using assms on_close_clears_latch [of w closing c]
  by (auto simp: close_def is_initialized_def Let_def split: option.splits)

lemma half_closed_channel_fields:
  "half_closed_channel = opened_channel\<lparr>is_closed_by_user := True\<rparr>"
  by (simp add: half_closed_channel_def opened_channel_fields model_defs example_defs
      env_close_quiet_def)

lemma closed_again_channel_fields: "closed_again_channel = peer_closed_channel"
  by (simp add: closed_again_channel_def peer_closed_channel_fields close_not_ready)

subsection \<open>Initialization guards\<close>

text \<open>
  C3, as stated, fails in its second half, in two ways. After a \<^verbatim>\<open>close()\<close> whose underlying
  close failed, the user has closed the channel, the flag is set and nothing reopened it, yet
  \<^verbatim>\<open>initialize\<close> raises the already-initialized error, not the closed-by-user one: the latch
  is still set and the source tests it first. And after a \<^verbatim>\<open>close()\<close> on a channel that the
  peer had closed, which is the no-operation of a latch that is not set and sets no flag,
  \<^verbatim>\<open>initialize\<close> does not fail at all.
\<close>

theorem initialize_guards_counterexample:
  "is_closed_by_user half_closed_channel
   \<and> result (initialize env_ok half_closed_channel) = Inl (RuntimeError ''Already initialized'')
   \<and> result (initialize env_ok half_closed_channel) \<noteq>
       Inl (RuntimeError ''Can't initialize closed channel'')
   \<and> result (close env_ok peer_closed_channel) = Inr ()
   \<and> result (initialize env_again closed_again_channel) = Inr ()"
  by (simp add: half_closed_channel_fields closed_again_channel_fields peer_closed_channel_fields
      opened_channel_fields model_defs example_defs Let_def)

text \<open>
  C3, amended. Calling \<^verbatim>\<open>initialize\<close> while the ready latch is set fails with the lifecycle
  error \<^verbatim>\<open>RuntimeError("Already initialized")\<close>, changes no field and contacts nobody; that
  is the case of a second \<^verbatim>\<open>initialize\<close> after a successful first one, which leaves the
  channel exactly as the first one left it, and also of a channel the user has closed while
  its latch is still set. Calling it while the latch is clear and the closed-by-user flag is
  set fails with the lifecycle error \<^verbatim>\<open>RuntimeError("Can't initialize closed channel")\<close>,
  again with no field changed. A \<^verbatim>\<open>close()\<close> made while the latch is clear sets no flag and
  makes no difference to a later \<^verbatim>\<open>initialize\<close>.
\<close>

theorem initialize_guards:
  "(is_initialized c \<longrightarrow>
      initialize w c =
        \<lparr>result = Inl (RuntimeError ''Already initialized''), after = c, events = []\<rparr>)
   \<and> (result (initialize w0 c0) = Inr () \<longrightarrow>
        initialize w (after (initialize w0 c0)) =
          \<lparr>result = Inl (RuntimeError ''Already initialized''),
           after = after (initialize w0 c0), events = []\<rparr>)
   \<and> (\<not> is_initialized c \<and> is_closed_by_user c \<longrightarrow>
        initialize w c =
          \<lparr>result = Inl (RuntimeError ''Can't initialize closed channel''), after = c,
           events = []\<rparr>)
   \<and> (\<not> is_initialized c \<longrightarrow> initialize w (after (close w1 c)) = initialize w c)"
proof -
  have ready_after: "is_initialized (after (initialize w0 c0))"
    if "result (initialize w0 c0) = Inr ()"
    using that
    by (auto simp: initialize_def priv_on_initialized_def is_initialized_def Let_def
        split: if_splits sum.splits)
  have unlatched: "after (close w1 c) = c" if "\<not> is_initialized c"
    using that by (simp add: close_not_ready is_initialized_def)
  show ?thesis
    using ready_after unlatched by (simp add: initialize_def)
qed

theorem initialize_guards_witness:
  "is_initialized opened_channel
   \<and> result (initialize env_ok new_channel) = Inr ()
   \<and> initialize env_again opened_channel =
       \<lparr>result = Inl (RuntimeError ''Already initialized''), after = opened_channel,
        events = []\<rparr>
   \<and> is_initialized half_closed_channel \<and> is_closed_by_user half_closed_channel
   \<and> initialize env_again half_closed_channel =
       \<lparr>result = Inl (RuntimeError ''Already initialized''), after = half_closed_channel,
        events = []\<rparr>
   \<and> \<not> is_initialized user_closed_channel \<and> is_closed_by_user user_closed_channel
   \<and> initialize env_again user_closed_channel =
       \<lparr>result = Inl (RuntimeError ''Can't initialize closed channel''),
        after = user_closed_channel, events = []\<rparr>
   \<and> \<not> is_initialized peer_closed_channel
   \<and> initialize env_again (after (close env_ok peer_closed_channel)) =
       initialize env_again peer_closed_channel"
proof -
  have a: "is_initialized opened_channel"
    by (simp add: opened_channel_fields is_initialized_def)
  have b: "\<not> is_initialized user_closed_channel" "is_closed_by_user user_closed_channel"
    by (simp_all add: user_closed_channel_fields is_initialized_def)
  have c: "is_initialized half_closed_channel" "is_closed_by_user half_closed_channel"
    by (simp_all add: half_closed_channel_fields opened_channel_fields is_initialized_def)
  have d: "\<not> is_initialized peer_closed_channel"
    by (simp add: peer_closed_channel_fields is_initialized_def)
  from a b c d initialize_new_channel
    initialize_guards [of opened_channel env_again env_ok new_channel env_ok]
    initialize_guards [of half_closed_channel env_again env_ok new_channel env_ok]
    initialize_guards [of user_closed_channel env_again env_ok new_channel env_ok]
    initialize_guards [of peer_closed_channel env_again env_ok new_channel env_ok]
  show ?thesis by simp
qed

subsection \<open>The ready latch\<close>

lemma initialize_sets_latch:
  assumes "result (initialize w c) = Inr ()"
  shows "ready (after (initialize w c))"
  using assms
  by (auto simp: initialize_def priv_on_initialized_def is_initialized_def Let_def
      split: if_splits sum.splits)

lemma reopen_sets_latch:
  assumes "result (reopen w c) = Inr ()"
  shows "ready (after (reopen w c))"
  using assms by (auto simp: reopen_def Let_def split: sum.splits)

text \<open>
  C2, as stated, fails for a close initiated by \<^verbatim>\<open>close()\<close>: the body of \<^verbatim>\<open>close\<close> never
  clears the latch. On an opened channel the latch is still set after a \<^verbatim>\<open>close()\<close> that
  returned normally without the close handler having run, and after a \<^verbatim>\<open>close()\<close> whose
  underlying close failed.
\<close>

theorem ready_latch_counterexample:
  "ready opened_channel
   \<and> result (close env_close_quiet opened_channel) = Inr ()
   \<and> ready (after (close env_close_quiet opened_channel))
   \<and> result (close env_close_fails opened_channel) = Inl (CollaboratorError ''connection lost'')
   \<and> ready (after (close env_close_fails opened_channel))"
  by (simp add: opened_channel_fields model_defs example_defs env_close_quiet_def)

text \<open>
  C2, amended. The latch is set when \<^verbatim>\<open>initialize\<close> has succeeded and set again when
  \<^verbatim>\<open>reopen\<close> has succeeded. It is cleared whenever the close handler has run, whatever
  closing future it was handed; that is how a peer-initiated close clears it. \<^verbatim>\<open>close()\<close>
  itself never changes the latch: after a call of \<^verbatim>\<open>close()\<close>, returned or raised, the latch
  is as it was before the call unless the underlying channel ran the close handler during the
  call, and on a channel holding its handle it is clear after every call during which the
  handler ran.
\<close>

theorem ready_latch:
  "(result (initialize w c) = Inr () \<longrightarrow> ready (after (initialize w c)))
   \<and> \<not> ready (after (priv_on_close w closing c))
   \<and> (close_notification w = None \<longrightarrow> ready (after (close w c)) = ready c)
   \<and> (close_notification w = Some closing \<and> attr_channel c \<noteq> None \<longrightarrow>
        \<not> ready (after (close w c)))
   \<and> (result (reopen w c) = Inr () \<longrightarrow> ready (after (reopen w c)))"
  using initialize_sets_latch on_close_clears_latch close_quiet_keeps_latch
    close_notified_clears_latch reopen_sets_latch
  by blast

theorem ready_latch_witness:
  "result (initialize env_ok new_channel) = Inr ()
   \<and> ready (after (initialize env_ok new_channel))
   \<and> ready opened_channel
   \<and> \<not> ready (after (priv_on_close env_ok (Finished None) opened_channel))
   \<and> close_notification env_close_fails = None
   \<and> ready (after (close env_close_fails opened_channel))
   \<and> close_notification env_ok = Some (Finished None)
   \<and> attr_channel opened_channel \<noteq> None
   \<and> \<not> ready (after (close env_ok opened_channel))
   \<and> result (reopen env_ok user_closed_channel) = Inr ()
   \<and> \<not> ready user_closed_channel
   \<and> ready (after (reopen env_ok user_closed_channel))"
proof -
  have a: "close_notification env_close_fails = None"
    "close_notification env_ok = Some (Finished None)"
    by (simp_all add: example_defs)
  have b: "attr_channel opened_channel \<noteq> None" "ready opened_channel"
    by (simp_all add: opened_channel_fields)
  have c: "result (reopen env_ok user_closed_channel) = Inr ()"
    by (simp add: user_closed_channel_fields opened_channel_fields model_defs example_defs Let_def)
  have d: "\<not> ready user_closed_channel"
    by (simp add: user_closed_channel_fields)
  from a b c d initialize_new_channel
    ready_latch [of env_ok new_channel "Finished None"]
    ready_latch [of env_ok opened_channel "Finished None"]
    ready_latch [of env_close_fails opened_channel "Finished None"]
    ready_latch [of env_ok user_closed_channel "Finished None"]
  show ?thesis by simp
qed

subsection \<open>Closing, once and repeatedly\<close>

text \<open>
  C1, as stated, fails in three places. On an opened channel, when the underlying close
  raises, \<^verbatim>\<open>close\<close> raises that error to its caller: the \<^verbatim>\<open>try\<close> has a \<^verbatim>\<open>finally\<close> and
  no \<^verbatim>\<open>except\<close>. On the same channel the state after two calls can differ from the state
  after one: \<^verbatim>\<open>close\<close> tests the latch, not the flag, so a second call made while the latch
  is still set asks the underlying channel to close again, and the close event of that second
  attempt clears the latch. And on a channel that was successfully initialized and then
  closed by the peer, the latch is clear, every \<^verbatim>\<open>close\<close> is the logged no-operation, and the
  closed-by-user flag is not set after any number of calls.
\<close>

theorem close_counterexample:
  "is_initialized opened_channel
   \<and> result (close env_close_fails opened_channel) = Inl (CollaboratorError ''connection lost'')
   \<and> closes [env_close_fails, env_ok] opened_channel \<noteq> closes [env_close_fails] opened_channel
   \<and> result (initialize env_ok new_channel) = Inr ()
   \<and> \<not> is_closed_by_user (closes [env_ok, env_ok, env_close_fails] peer_closed_channel)"
proof -
  have a: "is_initialized opened_channel"
    by (simp add: opened_channel_fields is_initialized_def)
  have b: "result (close env_close_fails opened_channel) =
      Inl (CollaboratorError ''connection lost'')"
    by (simp add: opened_channel_fields model_defs example_defs)
  have c: "ready (closes [env_close_fails] opened_channel)"
    by (simp add: opened_channel_fields model_defs example_defs)
  have d: "\<not> ready (closes [env_close_fails, env_ok] opened_channel)"
    by (simp add: opened_channel_fields model_defs example_defs)
  from c d have e: "closes [env_close_fails, env_ok] opened_channel \<noteq>
      closes [env_close_fails] opened_channel"
    by metis
  have "\<not> ready peer_closed_channel"
    by (simp add: peer_closed_channel_fields)
  then have "closes [env_ok, env_ok, env_close_fails] peer_closed_channel = peer_closed_channel"
    by (rule closes_not_ready)
  then have f: "\<not> is_closed_by_user (closes [env_ok, env_ok, env_close_fails] peer_closed_channel)"
    by (simp add: peer_closed_channel_fields opened_channel_fields new_channel_def)
  from a b e f initialize_new_channel show ?thesis by simp
qed

text \<open>
  C1, amended. For every channel and every \<open>N \<ge> 1\<close> calls of \<^verbatim>\<open>close\<close>, whatever the
  collaborators answer. While the ready latch is not set, which is the case of a channel
  never initialized and equally of one that was initialized and whose latch a close event has
  cleared, each call is a logged no-operation: it returns normally and leaves every field,
  the closed-by-user flag included, as it was, so \<open>N\<close> calls leave the state one call leaves.
  While the latch is set, the closed-by-user flag is set afterwards in every case, also when
  the underlying close fails; the final state is the state after the first call in every
  field except possibly the ready latch, and in the latch too as soon as the first call's
  close event has cleared it, every further call then returning normally. A call made while
  the latch is set on a channel holding its handle raises exactly when the underlying close
  raises, and it raises the underlying error unchanged.
\<close>

theorem close_repeated:
  "(\<not> is_initialized c \<longrightarrow>
      close w c =
        \<lparr>result = Inr (), after = c, events = [LogWarning ''Channel not opened'']\<rparr>
      \<and> closes (w # ws) c = c)
   \<and> (is_initialized c \<longrightarrow>
        is_closed_by_user (closes (w # ws) c)
        \<and> (closes (w # ws) c)\<lparr>ready := r\<rparr> = (after (close w c))\<lparr>ready := r\<rparr>
        \<and> (\<not> ready (after (close w c)) \<longrightarrow>
             closes (w # ws) c = after (close w c)
             \<and> result (close w1 (after (close w c))) = Inr ()))
   \<and> (is_initialized c \<and> attr_channel c \<noteq> None \<longrightarrow>
        ((\<exists>e. result (close w c) = Inl e) \<longleftrightarrow> underlay_close w \<noteq> None)
        \<and> (underlay_close w = Some e \<longrightarrow> result (close w c) = Inl e))"
proof -
  have noop: "close w c =
        \<lparr>result = Inr (), after = c, events = [LogWarning ''Channel not opened'']\<rparr>
      \<and> closes (w # ws) c = c" if "\<not> is_initialized c"
    using that by (simp add: is_initialized_def close_not_ready closes_not_ready)
  have rest: "is_closed_by_user (closes (w # ws) c)
      \<and> (closes (w # ws) c)\<lparr>ready := r\<rparr> = (after (close w c))\<lparr>ready := r\<rparr>"
    if "is_initialized c"
    using closes_flagged [OF close_sets_flag [OF that], of ws w r] by simp
  have settled: "closes (w # ws) c = after (close w c)
      \<and> result (close w1 (after (close w c))) = Inr ()"
    if "\<not> ready (after (close w c))"
    using that by (simp add: closes_not_ready close_not_ready)
  have raises: "((\<exists>e. result (close w c) = Inl e) \<longleftrightarrow> underlay_close w \<noteq> None)
      \<and> (underlay_close w = Some e \<longrightarrow> result (close w c) = Inl e)"
    if "is_initialized c" "attr_channel c \<noteq> None"
    using close_with_handle [OF that] by (auto simp: outcome_def split: option.splits)
  from noop rest settled raises show ?thesis by blast
qed

theorem close_repeated_witness:
  "\<not> is_initialized peer_closed_channel
   \<and> result (close env_close_fails peer_closed_channel) = Inr ()
   \<and> closes [env_close_fails, env_ok] peer_closed_channel = peer_closed_channel
   \<and> is_initialized opened_channel \<and> attr_channel opened_channel \<noteq> None
   \<and> is_closed_by_user (closes [env_close_fails, env_close_fails, env_ok] opened_channel)
   \<and> (closes [env_close_fails, env_close_fails, env_ok] opened_channel)\<lparr>ready := True\<rparr> =
       after (close env_close_fails opened_channel)
   \<and> \<not> ready (after (close env_ok opened_channel))
   \<and> closes [env_ok, env_close_fails, env_ok] opened_channel = after (close env_ok opened_channel)
   \<and> result (close env_close_fails (after (close env_ok opened_channel))) = Inr ()
   \<and> result (close env_close_fails opened_channel) = Inl (CollaboratorError ''connection lost'')
   \<and> result (close env_ok opened_channel) = Inr ()"
proof -
  have a: "is_initialized opened_channel" "attr_channel opened_channel \<noteq> None"
    by (simp_all add: opened_channel_fields is_initialized_def)
  have b: "\<not> ready (after (close env_ok opened_channel))"
    by (simp add: opened_channel_fields model_defs example_defs)
  have c: "underlay_close env_close_fails = Some (CollaboratorError ''connection lost'')"
    "underlay_close env_ok = None"
    by (simp_all add: example_defs)
  have d: "(after (close env_close_fails opened_channel))\<lparr>ready := True\<rparr> =
      after (close env_close_fails opened_channel)"
    by (simp add: opened_channel_fields model_defs example_defs)
  have e: "result (close env_ok opened_channel) = Inr ()"
    by (simp add: opened_channel_fields model_defs example_defs)
  have f: "\<not> is_initialized peer_closed_channel"
    by (simp add: peer_closed_channel_fields is_initialized_def)
  from a b c d e f
    close_repeated [of peer_closed_channel env_close_fails "[env_ok]" True env_close_fails
      "CollaboratorError ''connection lost''"]
    close_repeated [of opened_channel env_close_fails "[env_close_fails, env_ok]" True
      env_close_fails "CollaboratorError ''connection lost''"]
    close_repeated [of opened_channel env_ok "[env_close_fails, env_ok]" True env_close_fails
      "CollaboratorError ''connection lost''"]
  show ?thesis by (simp del: closes.simps)
qed

end
